theory Spec2Isabelle
  imports Complex_Main
begin

section \<open>The HMS component status tracker (status-tracker.py)\<close>

text \<open>
  The tracker keeps one JSON status record per component, appends an issue when a start
  or a test run fails, and writes a work ticket when failures outnumber successes.
  The embedding follows the Python source function by function. Dictionaries with a
  fixed set of keys are records, Python's unbounded integers are \<open>int\<close>, \<open>None\<close> is
  \<open>None\<close>, and every function that touches the disk, the clock or the UUID generator
  takes the world and returns the new one.
\<close>

subsection \<open>Data model\<close>

type_synonym timestamp = string

text \<open>
  The test results payload is a Python dictionary handed in by the caller: its entries in
  insertion order, with distinct keys. A key is a string or an integer; the values are
  integers.
\<close>

datatype pykey = Str_key string | Int_key int

type_synonym results = "(pykey \<times> int) list"

text \<open>
  The \<open>details\<close> dictionary of an issue has one of the two shapes the tracker builds:
  \<open>{"output": output}\<close> for a failed start and \<open>{"results": results}\<close> for a failed
  test run.
\<close>

datatype details = Output_details "string option" | Results_details results

record issue =
  issue_id :: string
  issue_type :: string
  issue_component :: string
  issue_timestamp :: timestamp
  issue_details :: details
  issue_status :: string

record start_stats =
  last_attempt :: "timestamp option"
  start_last_success :: "timestamp option"
  attempts :: int
  successes :: int
  failures :: int
  start_status :: string

record test_stats =
  last_run :: "timestamp option"
  tests_last_success :: "timestamp option"
  total_runs :: int
  total_passed :: int
  total_failed :: int
  tests_status :: string
  last_results :: results

record component_status =
  status_component :: string
  version :: string
  created_at :: timestamp
  last_updated :: timestamp
  start :: start_stats
  tests :: test_stats
  issues :: "issue list"
  operational_status :: string

record ticket_details =
  details_component :: string
  details_issue :: issue
  description :: string
  suggested_actions :: "string list"

record ticket =
  ticket_id :: string
  ticket_component :: string
  ticket_issue_id :: string
  ticket_issue_type :: string
  ticket_created_at :: timestamp
  ticket_updated_at :: timestamp
  assigned_to :: string
  ticket_status :: string
  priority :: string
  ticket_details :: ticket_details

definition STATUS_VERSION :: string where
  "STATUS_VERSION = ''1.0''"

subsection \<open>The operational status rule\<close>

text \<open>
  \<open>update_operational_status\<close> overwrites one key of the dictionary it is given; the
  model returns the updated record.
\<close>

definition update_operational_status :: "component_status \<Rightarrow> component_status" where
  "update_operational_status status =
     (let start_st = start_status (start status);
          test_st = tests_status (tests status)
      in if start_st = ''unknown'' \<or> test_st = ''unknown'' then
           status\<lparr>operational_status := ''unknown''\<rparr>
         else if start_st = ''failed'' then
           status\<lparr>operational_status := ''offline''\<rparr>
         else if test_st = ''failing'' then
           status\<lparr>operational_status := ''degraded''\<rparr>
         else if start_st = ''running'' \<and> test_st = ''passing'' then
           status\<lparr>operational_status := ''operational''\<rparr>
         else
           status\<lparr>operational_status := ''degraded''\<rparr>)"

text \<open>
  The rule as the specification words it, over the three enumerations of the data model,
  with the strings the record stores for each value.
\<close>

datatype start_state = Start_Unknown | Running | Failed

datatype test_state = Test_Unknown | Passing | Failing

datatype op_state = Op_Unknown | Operational | Degraded | Offline

definition OperationalStatusRule :: "start_state \<Rightarrow> test_state \<Rightarrow> op_state" where
  "OperationalStatusRule startStatus testStatus =
     (if startStatus = Start_Unknown \<or> testStatus = Test_Unknown then Op_Unknown
      else if startStatus = Failed then Offline
      else if testStatus = Failing then Degraded
      else if startStatus = Running \<and> testStatus = Passing then Operational
      else Degraded)"

fun start_state_str :: "start_state \<Rightarrow> string" where
  "start_state_str Start_Unknown = ''unknown''"
| "start_state_str Running = ''running''"
| "start_state_str Failed = ''failed''"

fun test_state_str :: "test_state \<Rightarrow> string" where
  "test_state_str Test_Unknown = ''unknown''"
| "test_state_str Passing = ''passing''"
| "test_state_str Failing = ''failing''"

fun op_state_str :: "op_state \<Rightarrow> string" where
  "op_state_str Op_Unknown = ''unknown''"
| "op_state_str Operational = ''operational''"
| "op_state_str Degraded = ''degraded''"
| "op_state_str Offline = ''offline''"

text \<open>A status record whose two sub-statuses are set to the given values.\<close>

definition with_statuses :: "component_status \<Rightarrow> string \<Rightarrow> string \<Rightarrow> component_status" where
  "with_statuses status s t =
     status\<lparr>start := (start status)\<lparr>start_status := s\<rparr>,
            tests := (tests status)\<lparr>tests_status := t\<rparr>\<rparr>"

subsection \<open>The world: files, clock and UUID generator\<close>

text \<open>
  What a status file holds, as \<open>json.load\<close> sees it: a JSON object of the shape the
  tracker writes, a JSON document that is not an object (a list, a string, a number,
  \<open>true\<close>, \<open>false\<close> or \<open>null\<close>), text that is not JSON, or bytes that are not text in the
  default encoding. JSON objects of another shape are not represented.
\<close>

datatype status_file = Valid_JSON component_status | Other_JSON | Invalid_JSON | Undecodable

text \<open>
  How the operating system resolves the path of a status file. \<open>Absent e\<close>: nothing is
  there and nothing can be created there, \<open>open\<close> raises \<open>e\<close> (a missing or unsearchable
  parent directory, a parent that is a file, a name that is too long or holds a NUL).
  \<open>Is_directory\<close> and \<open>No_permission\<close>: something is there that \<open>open\<close> refuses.
  \<open>Regular i\<close>: the path names the regular file \<open>i\<close> of an existing directory, whether
  the file has been created yet or not; two paths with the same \<open>i\<close> are the same file.
\<close>

type_synonym inode = nat

datatype error = FileNotFoundError | NotADirectoryError | IsADirectoryError | PermissionError
  | OSError | ValueError | UnicodeDecodeError | TypeError | OverflowError

datatype lookup_result = Absent error | Is_directory | No_permission | Regular inode

text \<open>
  \<open>script_dir\<close> is \<open>os.path.dirname(os.path.abspath(__file__))\<close>. Status files are reached
  through their paths. The notification log and the ticket files have names the tracker
  fixes itself (\<open>notifications.log\<close>, \<open>WRK-\<close> and eight hexadecimal digits), which never
  end in \<open>_status.json\<close>: their two directories are each either missing (\<open>None\<close>) or a map
  from file names to contents, a log file being the list of the lines written to it.
  \<open>datetime.datetime.now().isoformat()\<close> and \<open>uuid.uuid4()\<close> are inputs from outside: the
  world supplies the sequence of values they will return and counts the calls made so
  far. What the tracker prints is not modelled, and neither is \<open>ensure_directories\<close>: a
  world says directly what can be opened.
\<close>

record world =
  script_dir :: string
  os_lookup :: "string \<Rightarrow> lookup_result"
  status_files :: "inode \<rightharpoonup> status_file"
  logs_dir :: "(string \<rightharpoonup> string list) option"
  work_tickets_dir :: "(string \<rightharpoonup> ticket) option"
  clock :: "nat \<Rightarrow> timestamp"
  clock_reads :: nat
  uuid_source :: "nat \<Rightarrow> string"
  uuid_draws :: nat

text \<open>
  The tracker catches \<open>json.JSONDecodeError\<close> in one place and nothing else: every other
  exception leaves every function on the call stack. A call returns its outcome together
  with the world as it is at that point.
\<close>

type_synonym 'a result = "(error + 'a) \<times> world"

definition and_then :: "'a result \<Rightarrow> ('a \<Rightarrow> world \<Rightarrow> 'b result) \<Rightarrow> 'b result" where
  "and_then r f = (case r of (Inl e, w) \<Rightarrow> (Inl e, w) | (Inr x, w) \<Rightarrow> f x w)"

definition now :: "world \<Rightarrow> timestamp \<times> world" where
  "now w = (clock w (clock_reads w), w\<lparr>clock_reads := Suc (clock_reads w)\<rparr>)"

text \<open>\<open>uuid4\<close> yields the 32 hexadecimal digits of the next UUID (its \<open>hex\<close>).\<close>

definition uuid4 :: "world \<Rightarrow> string \<times> world" where
  "uuid4 w = (uuid_source w (uuid_draws w), w\<lparr>uuid_draws := Suc (uuid_draws w)\<rparr>)"

text \<open>\<open>str(uuid)\<close>: the digits in groups of 8, 4, 4, 4 and 12.\<close>

definition uuid_str :: "string \<Rightarrow> string" where
  "uuid_str h = take 8 h @ ''-'' @ take 4 (drop 8 h) @ ''-'' @ take 4 (drop 12 h) @ ''-''
     @ take 4 (drop 16 h) @ ''-'' @ drop 20 h"

subsection \<open>Paths and files\<close>

text \<open>\<open>os.path.join\<close> of two parts, on POSIX: an absolute second part replaces the first.\<close>

definition os_path_join :: "string \<Rightarrow> string \<Rightarrow> string" where
  "os_path_join a b =
     (if b \<noteq> [] \<and> hd b = CHR ''/'' then b
      else if a = [] \<or> last a = CHR ''/'' then a @ b
      else a @ ''/'' @ b)"

definition STATUS_DIR :: "world \<Rightarrow> string" where
  "STATUS_DIR w = os_path_join (script_dir w) ''status''"

text \<open>\<open>os.path.exists\<close>: true for whatever is there, false when the path cannot be resolved.\<close>

definition os_path_exists :: "world \<Rightarrow> string \<Rightarrow> bool" where
  "os_path_exists w p =
     (case os_lookup w p of
        Absent e \<Rightarrow> False
      | Is_directory \<Rightarrow> True
      | No_permission \<Rightarrow> True
      | Regular i \<Rightarrow> status_files w i \<noteq> None)"

text \<open>\<open>open(p, 'r')\<close> and reading: the content of the file, or the exception.\<close>

definition open_r :: "world \<Rightarrow> string \<Rightarrow> error + status_file" where
  "open_r w p =
     (case os_lookup w p of
        Absent e \<Rightarrow> Inl e
      | Is_directory \<Rightarrow> Inl IsADirectoryError
      | No_permission \<Rightarrow> Inl PermissionError
      | Regular i \<Rightarrow> (case status_files w i of None \<Rightarrow> Inl FileNotFoundError | Some f \<Rightarrow> Inr f))"

text \<open>\<open>open(p, 'w')\<close>: the file that will be written, created if need be, or the exception.\<close>

definition open_w :: "world \<Rightarrow> string \<Rightarrow> error + inode" where
  "open_w w p =
     (case os_lookup w p of
        Absent e \<Rightarrow> Inl e
      | Is_directory \<Rightarrow> Inl IsADirectoryError
      | No_permission \<Rightarrow> Inl PermissionError
      | Regular i \<Rightarrow> Inr i)"

subsection \<open>Strings\<close>

text \<open>\<open>str.replace(old, new)\<close> for a non-empty \<open>old\<close>: every occurrence, left to right.\<close>

function replace :: "string \<Rightarrow> string \<Rightarrow> string \<Rightarrow> string" where
  "replace old new s =
     (if s = [] \<or> old = [] then s
      else if take (length old) s = old then new @ replace old new (drop (length old) s)
      else hd s # replace old new (tl s))"
  by pat_completeness auto
termination
  by (relation "measure (\<lambda>(old, new, s). length s)") (auto simp: neq_Nil_conv)

text \<open>Decimal rendering of an integer, as an f-string and \<open>json.dump\<close> do it.\<close>

fun str_nat :: "nat \<Rightarrow> string" where
  "str_nat n =
     (if n < 10 then [''0123456789'' ! n]
      else str_nat (n div 10) @ [''0123456789'' ! (n mod 10)])"

definition str_int :: "int \<Rightarrow> string" where
  "str_int i = (if i < 0 then ''-'' @ str_nat (nat (- i)) else str_nat (nat i))"

subsection \<open>What JSON keeps of a record\<close>

text \<open>\<open>d[k] = v\<close> on a dictionary: an existing key keeps its place, a new one goes last.\<close>

fun dict_set :: "('k \<times> 'v) list \<Rightarrow> 'k \<Rightarrow> 'v \<Rightarrow> ('k \<times> 'v) list" where
  "dict_set [] k v = [(k, v)]"
| "dict_set ((k', v') # d) k v =
     (if k' = k then (k, v) # d else (k', v') # dict_set d k v)"

text \<open>
  \<open>json.dump\<close> writes every key of a dictionary as a string, an integer key in decimal;
  \<open>json.load\<close> builds the dictionary entry by entry, so that of two entries with the same
  written key the later value wins. \<open>json_results\<close> is the payload as it is read back.
\<close>

definition json_key :: "pykey \<Rightarrow> string" where
  "json_key k = (case k of Str_key s \<Rightarrow> s | Int_key n \<Rightarrow> str_int n)"

definition json_results :: "results \<Rightarrow> results" where
  "json_results r = foldl (\<lambda>d (k, v). dict_set d (Str_key (json_key k)) v) [] r"

definition json_issue :: "issue \<Rightarrow> issue" where
  "json_issue iss =
     (case issue_details iss of
        Output_details out \<Rightarrow> iss
      | Results_details r \<Rightarrow> iss\<lparr>issue_details := Results_details (json_results r)\<rparr>)"

definition json_status :: "component_status \<Rightarrow> component_status" where
  "json_status status =
     status\<lparr>tests := (tests status)\<lparr>last_results := json_results (last_results (tests status))\<rparr>,
            issues := map json_issue (issues status)\<rparr>"

definition json_ticket :: "ticket \<Rightarrow> ticket" where
  "json_ticket tkt =
     tkt\<lparr>ticket_details :=
           (ticket_details tkt)\<lparr>details_issue := json_issue (details_issue (ticket_details tkt))\<rparr>\<rparr>"

subsection \<open>The status store\<close>

definition get_status_file_path :: "world \<Rightarrow> string \<Rightarrow> string" where
  "get_status_file_path w component = os_path_join (STATUS_DIR w) (component @ ''_status.json'')"

definition new_status :: "string \<Rightarrow> timestamp \<Rightarrow> timestamp \<Rightarrow> component_status" where
  "new_status c t1 t2 =
     \<lparr>status_component = c,
      version = STATUS_VERSION,
      created_at = t1,
      last_updated = t2,
      start = \<lparr>last_attempt = None, start_last_success = None, attempts = 0,
               successes = 0, failures = 0, start_status = ''unknown''\<rparr>,
      tests = \<lparr>last_run = None, tests_last_success = None, total_runs = 0,
               total_passed = 0, total_failed = 0, tests_status = ''unknown'',
               last_results = []\<rparr>,
      issues = [],
      operational_status = ''unknown''\<rparr>"

text \<open>
  What \<open>get_component_status\<close> returns: a status record, or a JSON value that is not an
  object, returned as it was read.
\<close>

datatype loaded = Status component_status | Other_value

text \<open>
  If something exists at the path the file is opened and parsed. Only text that is not
  JSON falls through to the fresh record, as a missing file does; the fresh record reads
  the clock twice. A path that cannot be opened, or bytes that cannot be decoded, raise.
\<close>

definition get_component_status :: "world \<Rightarrow> string \<Rightarrow> loaded result" where
  "get_component_status w component =
     (let status_file = get_status_file_path w component;
          fresh = (let (t1, w) = now w;
                       (t2, w) = now w
                   in (Inr (Status (new_status component t1 t2)), w))
      in if os_path_exists w status_file then
           (case open_r w status_file of
              Inl e \<Rightarrow> (Inl e, w)
            | Inr Undecodable \<Rightarrow> (Inl UnicodeDecodeError, w)
            | Inr (Valid_JSON status) \<Rightarrow> (Inr (Status status), w)
            | Inr Other_JSON \<Rightarrow> (Inr Other_value, w)
            | Inr Invalid_JSON \<Rightarrow> fresh)
         else fresh)"

text \<open>
  \<open>update_component_status\<close> sets \<open>last_updated\<close> in the caller's dictionary, opens the
  file and writes the dictionary as JSON; the model returns the dictionary as the caller
  sees it afterwards, and the file holds what JSON keeps of it.
\<close>

definition update_component_status :: "world \<Rightarrow> string \<Rightarrow> component_status \<Rightarrow> component_status result" where
  "update_component_status w component status =
     (let status_file = get_status_file_path w component;
          (t, w) = now w;
          status = status\<lparr>last_updated := t\<rparr>
      in case open_w w status_file of
           Inl e \<Rightarrow> (Inl e, w)
         | Inr i \<Rightarrow>
             (Inr status, w\<lparr>status_files := (status_files w)(i \<mapsto> Valid_JSON (json_status status))\<rparr>))"

subsection \<open>The ticket generator\<close>

definition determine_responsible_agent :: "string \<Rightarrow> string \<Rightarrow> string" where
  "determine_responsible_agent component issue_ty =
     (if issue_ty = ''start_failure'' then ''HMS-DEV''
      else if issue_ty = ''test_failure'' then replace ''HMS-'' ''HMS-AGT-'' component
      else ''HMS-DEV'')"

text \<open>\<open>d.get(key, default)\<close> with a string key on a dictionary of counters.\<close>

definition dict_get :: "results \<Rightarrow> string \<Rightarrow> int \<Rightarrow> int" where
  "dict_get d k dflt = (case map_of d (Str_key k) of None \<Rightarrow> dflt | Some v \<Rightarrow> v)"

text \<open>\<open>issue.get("details", {}).get("results", {})\<close>\<close>

definition details_results :: "issue \<Rightarrow> results" where
  "details_results iss =
     (case issue_details iss of Output_details _ \<Rightarrow> [] | Results_details r \<Rightarrow> r)"

text \<open>
  \<open>a / b > 0.5\<close> for two integers. Python's true division yields the double nearest to the
  exact quotient, ties going to the even mantissa, and raises \<open>OverflowError\<close> when that
  lies outside the range of a double, that is from \<open>2 ^ 1024 - 2 ^ 970\<close> on in magnitude.
  The double after \<open>0.5\<close> is \<open>0.5 + 2 ^ -53\<close> and the mantissa of \<open>0.5\<close> is even, so the
  rounded quotient exceeds \<open>0.5\<close> exactly when the exact one exceeds \<open>0.5 + 2 ^ -54\<close>.
\<close>

definition true_divide_exceeds_half :: "int \<Rightarrow> int \<Rightarrow> error + bool" where
  "true_divide_exceeds_half a b =
     (let q = real_of_int a / real_of_int b
      in if \<bar>q\<bar> \<ge> 2 ^ 1024 - 2 ^ 970 then Inl OverflowError
         else Inr (q > 1 / 2 + 1 / 2 ^ 54))"

definition determine_priority :: "string \<Rightarrow> string \<Rightarrow> issue \<Rightarrow> error + string" where
  "determine_priority component issue_ty iss =
     (if issue_ty = ''start_failure'' then Inr ''high''
      else if issue_ty = ''test_failure'' then
        (let res = details_results iss;
             failed = dict_get res ''failed'' 0;
             total = failed + dict_get res ''passed'' 0 + dict_get res ''skipped'' 0
         in if total > 0 then
              (case true_divide_exceeds_half failed total of
                 Inl e \<Rightarrow> Inl e
               | Inr exceeds \<Rightarrow> Inr (if exceeds then ''high'' else ''medium''))
            else Inr ''medium'')
      else Inr ''medium'')"

definition generate_ticket_description :: "string \<Rightarrow> string \<Rightarrow> issue \<Rightarrow> string" where
  "generate_ticket_description component issue_ty iss =
     (if issue_ty = ''start_failure'' then
        ''The '' @ component @ '' component failed to start. This is affecting the operational status of the HMS ecosystem and should be resolved as soon as possible.''
      else if issue_ty = ''test_failure'' then
        (let res = details_results iss;
             failed = dict_get res ''failed'' 0;
             total = failed + dict_get res ''passed'' 0 + dict_get res ''skipped'' 0
         in if total > 0 then
              ''Tests for '' @ component @ '' are failing ('' @ str_int failed @ ''/'' @ str_int total @ '' tests failed). This may indicate issues with recent changes or integration problems.''
            else
              ''Tests for '' @ component @ '' failed to run properly. This may indicate configuration or dependency issues.'')
      else ''Issue detected with '' @ component @ '': '' @ issue_ty)"

definition generate_suggested_actions :: "string \<Rightarrow> string \<Rightarrow> issue \<Rightarrow> string list" where
  "generate_suggested_actions component issue_ty iss =
     (if issue_ty = ''start_failure'' then
        [''Check the '' @ component @ '' logs for error messages'',
         ''Verify all dependencies for '' @ component @ '' are available and correctly configured'',
         ''Check for recent changes that might have affected the component'' @ [CHR 0x27] @ ''s ability to start'',
         ''Verify environment variables and configuration files'']
      else if issue_ty = ''test_failure'' then
        [''Review failing tests for '' @ component,
         ''Check for recent code changes that might have broken tests'',
         ''Verify test environment and fixtures'',
         ''Check for integration issues with dependent components'',
         ''Run tests with verbose output to diagnose specific failures'']
      else [''Investigate the issue'', ''Check component logs'', ''Review recent changes''])"

text \<open>
  The log is opened for appending before the line is formatted, so a failing \<open>open\<close>
  leaves the clock unread. A log file is the list of the lines written to it.
\<close>

definition notify_agent_about_ticket :: "world \<Rightarrow> string \<Rightarrow> string \<Rightarrow> ticket \<Rightarrow> unit result" where
  "notify_agent_about_ticket w agent tid tkt =
     (case logs_dir w of
        None \<Rightarrow> (Inl FileNotFoundError, w)
      | Some files \<Rightarrow>
          (let (t, w) = now w;
               line = t @ '' - Notified '' @ agent @ '' about '' @ tid @ '' (''
                        @ ticket_component tkt @ '' - '' @ ticket_issue_type tkt @ '')''
                        @ [CHR 0x0A];
               old = (case files ''notifications.log'' of None \<Rightarrow> [] | Some ls \<Rightarrow> ls)
           in (Inr (), w\<lparr>logs_dir := Some (files(''notifications.log'' \<mapsto> old @ [line]))\<rparr>)))"

text \<open>
  The ticket dictionary is built, priority included, before the ticket file is opened;
  the file is written before the agent is notified.
\<close>

definition generate_work_ticket :: "world \<Rightarrow> string \<Rightarrow> string \<Rightarrow> issue \<Rightarrow> string result" where
  "generate_work_ticket w component issue_ty iss =
     (let assigned_agent = determine_responsible_agent component issue_ty;
          (u, w) = uuid4 w;
          tid = ''WRK-'' @ take 8 u;
          (t, w) = now w
      in case determine_priority component issue_ty iss of
           Inl e \<Rightarrow> (Inl e, w)
         | Inr prio \<Rightarrow>
             (let tkt = \<lparr>ticket_id = tid,
                         ticket_component = component,
                         ticket_issue_id = issue_id iss,
                         ticket_issue_type = issue_ty,
                         ticket_created_at = t,
                         ticket_updated_at = t,
                         assigned_to = assigned_agent,
                         ticket_status = ''open'',
                         priority = prio,
                         ticket_details =
                           \<lparr>details_component = component,
                            details_issue = iss,
                            description = generate_ticket_description component issue_ty iss,
                            suggested_actions =
                              generate_suggested_actions component issue_ty iss\<rparr>\<rparr>
              in case work_tickets_dir w of
                   None \<Rightarrow> (Inl FileNotFoundError, w)
                 | Some files \<Rightarrow>
                     and_then
                       (notify_agent_about_ticket
                          (w\<lparr>work_tickets_dir := Some (files(tid @ ''.json'' \<mapsto> json_ticket tkt))\<rparr>)
                          assigned_agent tid tkt)
                       (\<lambda>_ w. (Inr tid, w))))"

subsection \<open>Recording a start attempt and a test run\<close>

text \<open>
  Both recorders evaluate the right-hand side of their first assignment, a clock reading,
  before they subscript what was loaded; a loaded value that is not an object raises
  \<open>TypeError\<close> at that subscript.
\<close>

definition record_component_start :: "world \<Rightarrow> string \<Rightarrow> bool \<Rightarrow> string option \<Rightarrow> component_status result" where
  "record_component_start w component success output =
     and_then (get_component_status w component)
       (\<lambda>loaded w.
          let (t, w) = now w
          in case loaded of
               Other_value \<Rightarrow> (Inl TypeError, w)
             | Status status \<Rightarrow>
                 (let status = status\<lparr>start := (start status)\<lparr>last_attempt := Some t\<rparr>\<rparr>;
                      status = status\<lparr>start := (start status)\<lparr>attempts := attempts (start status) + 1\<rparr>\<rparr>
                  in and_then
                       (if success then
                          (let (t, w) = now w;
                               status = status\<lparr>start := (start status)\<lparr>start_last_success := Some t\<rparr>\<rparr>;
                               status = status\<lparr>start := (start status)\<lparr>successes := successes (start status) + 1\<rparr>\<rparr>;
                               status = status\<lparr>start := (start status)\<lparr>start_status := ''running''\<rparr>\<rparr>
                           in (Inr status, w))
                        else
                          (let status = status\<lparr>start := (start status)\<lparr>failures := failures (start status) + 1\<rparr>\<rparr>;
                               status = status\<lparr>start := (start status)\<lparr>start_status := ''failed''\<rparr>\<rparr>;
                               (u, w) = uuid4 w;
                               (t, w) = now w;
                               iss = \<lparr>issue_id = uuid_str u,
                                      issue_type = ''start_failure'',
                                      issue_component = component,
                                      issue_timestamp = t,
                                      issue_details = Output_details output,
                                      issue_status = ''open''\<rparr>;
                               status = status\<lparr>issues := issues status @ [iss]\<rparr>
                           in if failures (start status) > successes (start status) then
                                and_then (generate_work_ticket w component ''start_failure'' iss)
                                  (\<lambda>_ w. (Inr status, w))
                              else (Inr status, w)))
                       (\<lambda>status w.
                          update_component_status w component (update_operational_status status))))"


subsection \<open>Observations on a world\<close>

text \<open>The regular file the status path of a component names, and what it holds.\<close>

definition status_slot :: "world \<Rightarrow> string \<Rightarrow> inode option" where
  "status_slot w c =
     (case os_lookup w (get_status_file_path w c) of Regular i \<Rightarrow> Some i | _ \<Rightarrow> None)"

definition status_file_of :: "world \<Rightarrow> string \<Rightarrow> status_file option" where
  "status_file_of w c = (case status_slot w c of None \<Rightarrow> None | Some i \<Rightarrow> status_files w i)"

text \<open>
  The environment a recorder needs: the status path of the component names a regular
  file that is missing, is not valid JSON or holds a status record, and the log and
  ticket directories exist.
\<close>

definition can_record :: "world \<Rightarrow> string \<Rightarrow> bool" where
  "can_record w c \<longleftrightarrow>
     status_slot w c \<noteq> None \<and> status_file_of w c \<noteq> Some Other_JSON \<and>
     status_file_of w c \<noteq> Some Undecodable \<and>
     logs_dir w \<noteq> None \<and> work_tickets_dir w \<noteq> None"

text \<open>The record a load would start from: the stored one, or else a fresh one.\<close>

definition status_before :: "world \<Rightarrow> string \<Rightarrow> component_status" where
  "status_before w c =
     (case status_file_of w c of
        Some (Valid_JSON status) \<Rightarrow> status
      | _ \<Rightarrow> new_status c (clock w (clock_reads w)) (clock w (Suc (clock_reads w))))"

text \<open>No persisted record can be read: nothing at the path, or text that is not JSON.\<close>

definition no_readable_record :: "world \<Rightarrow> string \<Rightarrow> bool" where
  "no_readable_record w c \<longleftrightarrow>
     \<not> os_path_exists w (get_status_file_path w c) \<or>
     open_r w (get_status_file_path w c) = Inr Invalid_JSON"

text \<open>The lines of the notification log, and a ticket file by ticket id.\<close>

definition notifications :: "world \<Rightarrow> string list" where
  "notifications w =
     (case logs_dir w of None \<Rightarrow> []
      | Some files \<Rightarrow> (case files ''notifications.log'' of None \<Rightarrow> [] | Some ls \<Rightarrow> ls))"

definition ticket_file_of :: "world \<Rightarrow> string \<Rightarrow> ticket option" where
  "ticket_file_of w tid =
     (case work_tickets_dir w of None \<Rightarrow> None | Some files \<Rightarrow> files (tid @ ''.json''))"









text \<open>The outcome of a call, when it returned.\<close>

definition returned :: "'a result \<Rightarrow> 'a option" where
  "returned r = (case fst r of Inl e \<Rightarrow> None | Inr x \<Rightarrow> Some x)"

subsection \<open>Sample worlds\<close>

definition sample_clock :: "nat \<Rightarrow> timestamp" where
  "sample_clock n = ''2025-11-03T10:00:0'' @ [''0123456789'' ! (n mod 10)]"

definition sample_uuids :: "nat \<Rightarrow> string" where
  "sample_uuids n = ''0f8fad5bd9cb469fa16570867728950'' @ [''0123456789'' ! (n mod 10)]"

text \<open>
  A status directory without subdirectories: \<open>HMS-API\<close> and \<open>HMS-DEV\<close> have their files
  in it, \<open>./HMS-API\<close> is another name of the first, and no other path can be opened.
\<close>

definition sample_lookup :: "string \<Rightarrow> lookup_result" where
  "sample_lookup p =
     (if p = ''/srv/hms/verification/status/HMS-API_status.json'' then Regular 0
      else if p = ''/srv/hms/verification/status/./HMS-API_status.json'' then Regular 0
      else if p = ''/srv/hms/verification/status/HMS-DEV_status.json'' then Regular 1
      else Absent FileNotFoundError)"

text \<open>A machine on which none of the three directories has been created yet.\<close>

definition bare_world :: world where
  "bare_world =
     \<lparr>script_dir = ''/srv/hms/verification'',
      os_lookup = (\<lambda>p. Absent FileNotFoundError),
      status_files = Map.empty, logs_dir = None, work_tickets_dir = None,
      clock = sample_clock, clock_reads = 0,
      uuid_source = sample_uuids, uuid_draws = 0\<rparr>"

text \<open>The three directories exist and are empty.\<close>

definition ready_world :: world where
  "ready_world =
     bare_world\<lparr>os_lookup := sample_lookup, logs_dir := Some Map.empty,
       work_tickets_dir := Some Map.empty\<rparr>"

text \<open>The tickets directory is there, the logs directory is not.\<close>

definition no_logs_world :: world where
  "no_logs_world = ready_world\<lparr>logs_dir := None\<rparr>"

text \<open>The status file of \<open>HMS-API\<close> was cut off in the middle of a write.\<close>

definition corrupt_world :: world where
  "corrupt_world = ready_world\<lparr>status_files := [0 \<mapsto> Invalid_JSON]\<rparr>"

text \<open>The status file of \<open>HMS-API\<close> holds bytes that are not text.\<close>

definition garbled_world :: world where
  "garbled_world = ready_world\<lparr>status_files := [0 \<mapsto> Undecodable]\<rparr>"

text \<open>The tests of \<open>HMS-API\<close> have passed once; the component has not been started.\<close>

definition tested_status :: component_status where
  "tested_status =
     (new_status ''HMS-API'' ''2025-11-02T08:00:00'' ''2025-11-02T08:00:05'')
       \<lparr>tests := \<lparr>last_run = Some ''2025-11-02T08:00:04'',
                  tests_last_success = Some ''2025-11-02T08:00:04'',
                  total_runs = 1, total_passed = 1, total_failed = 0,
                  tests_status = ''passing'',
                  last_results = [(Str_key ''passed'', 12), (Str_key ''failed'', 0),
                                  (Str_key ''skipped'', 1)]\<rparr>\<rparr>"

definition tested_world :: world where
  "tested_world = ready_world\<lparr>status_files := [0 \<mapsto> Valid_JSON tested_status]\<rparr>"

definition sample_issue :: issue where
  "sample_issue =
     \<lparr>issue_id = ''11111111-2222-3333-4444-555555555555'',
      issue_type = ''start_failure'',
      issue_component = ''HMS-API'',
      issue_timestamp = ''2025-11-03T09:59:59'',
      issue_details = Output_details (Some ''exit code 1''),
      issue_status = ''open''\<rparr>"



text \<open>A payload whose failed share is beyond the range of a double.\<close>

definition huge_payload :: results where
  "huge_payload =
     [(Str_key ''passed'', 1 - 2 ^ 1024), (Str_key ''failed'', 2 ^ 1024), (Str_key ''skipped'', 0)]"

section \<open>Properties\<close>

lemmas world_defs = now_def uuid4_def and_then_def Let_def

lemmas file_defs = os_path_exists_def open_r_def open_w_def

lemmas obs_defs = status_slot_def status_file_of_def can_record_def status_before_def
  notifications_def ticket_file_of_def no_readable_record_def

lemmas sample_defs = bare_world_def ready_world_def no_logs_world_def corrupt_world_def
  garbled_world_def tested_world_def

lemma get_status_file_path_frame [simp]:
  "get_status_file_path (w\<lparr>clock_reads := n\<rparr>) c = get_status_file_path w c"
  "get_status_file_path (w\<lparr>uuid_draws := m\<rparr>) c = get_status_file_path w c"
  "get_status_file_path (w\<lparr>status_files := sf\<rparr>) c = get_status_file_path w c"
  "get_status_file_path (w\<lparr>logs_dir := ld\<rparr>) c = get_status_file_path w c"
  "get_status_file_path (w\<lparr>work_tickets_dir := td\<rparr>) c = get_status_file_path w c"
  by (simp_all add: get_status_file_path_def STATUS_DIR_def)

lemma sample_paths:
  "get_status_file_path ready_world ''HMS-API'' = ''/srv/hms/verification/status/HMS-API_status.json''"
  "get_status_file_path ready_world ''HMS/API'' = ''/srv/hms/verification/status/HMS/API_status.json''"
  "get_status_file_path bare_world ''HMS-API'' = ''/srv/hms/verification/status/HMS-API_status.json''"
  by (simp_all add: get_status_file_path_def STATUS_DIR_def os_path_join_def sample_defs)

subsection \<open>The operational status rule\<close>

text \<open>
  C1. On each of the nine pairs of a start status in unknown, running, failed and a test
  status in unknown, passing, failing, \<open>update_operational_status\<close> stores the value the
  precedence order of the specification gives: unknown if either is unknown, else
  offline if the start failed, else degraded if the tests are failing, else operational
  if running and passing, else degraded. Nothing else in the record changes.
\<close>

theorem update_operational_status_follows_rule:
  "update_operational_status (with_statuses status (start_state_str s) (test_state_str t)) =
     (with_statuses status (start_state_str s) (test_state_str t))
       \<lparr>operational_status := op_state_str (OperationalStatusRule s t)\<rparr>"
  by (cases s; cases t;
      simp add: update_operational_status_def with_statuses_def OperationalStatusRule_def Let_def)

text \<open>
  C4. The claim is that a component that is running and whose tests have never run is
  rated degraded. The check for an unknown sub-status comes first in the code, so the
  rating is unknown: the claim fails on a fresh record whose start status is set to
  running.
\<close>

theorem running_untested_not_degraded:
  "operational_status
     (update_operational_status
        (with_statuses (new_status ''HMS-API'' ''2025-11-03T10:00:00'' ''2025-11-03T10:00:01'')
           ''running'' ''unknown'')) \<noteq> ''degraded''"
  by (simp add: update_operational_status_def with_statuses_def new_status_def Let_def)

text \<open>
  C4, as amended: for a start status of running and a test status of unknown the rule
  returns unknown.
\<close>

theorem running_untested_is_unknown:
  "operational_status (update_operational_status (with_statuses status ''running'' ''unknown''))
     = ''unknown''"
  by (simp add: update_operational_status_def with_statuses_def Let_def)

subsection \<open>Ticket priority\<close>


lemma determine_priority_start_failure [simp]:
  "determine_priority c ''start_failure'' iss = Inr ''high''"
  by (simp add: determine_priority_def)





subsection \<open>The status store\<close>










lemma json_results_Nil [simp]: "json_results [] = []"
  by (simp add: json_results_def)




subsection \<open>Recording a start attempt\<close>

text \<open>
  C9. The claim is that the first successful start sets \<open>last_success\<close> to the attempt
  time. The recorder reads the clock once for \<open>last_attempt\<close> and again for
  \<open>last_success\<close>: on a clock that moves between the two readings the stored times
  differ.
\<close>

theorem first_start_reads_clock_twice:
  "map_option (last_attempt \<circ> start)
     (returned (record_component_start ready_world ''HMS-API'' True None))
     = Some (Some ''2025-11-03T10:00:02'') \<and>
   map_option (start_last_success \<circ> start)
     (returned (record_component_start ready_world ''HMS-API'' True None))
     = Some (Some ''2025-11-03T10:00:03'')"
  by (simp add: returned_def record_component_start_def get_component_status_def
        update_component_status_def update_operational_status_def file_defs world_defs
        sample_defs sample_lookup_def sample_clock_def get_status_file_path_def STATUS_DIR_def
        os_path_join_def new_status_def)

text \<open>
  C9, as amended: for a component whose status path names a regular file that does not
  exist yet, one successful \<open>record_component_start\<close> returns and persists a record that
  a load then returns, with one success, one attempt, status running, and \<open>last_success\<close>
  set to the clock reading taken right after the one stored as \<open>last_attempt\<close>.
\<close>

theorem first_successful_start:
  assumes "status_slot w c = Some i" and "status_files w i = None"
  shows "\<exists>status' w'.
           record_component_start w c True out = (Inr status', w') \<and>
           get_component_status w' c = (Inr (Status status'), w') \<and>
           successes (start status') = 1 \<and>
           attempts (start status') = 1 \<and>
           failures (start status') = 0 \<and>
           start_status (start status') = ''running'' \<and>
           last_attempt (start status') = Some (clock w (clock_reads w + 2)) \<and>
           start_last_success (start status') = Some (clock w (clock_reads w + 3))"
proof -
  from assms(1) have l: "os_lookup w (get_status_file_path w c) = Regular i"
    by (simp add: status_slot_def split: lookup_result.splits)
  show ?thesis
    by (simp add: record_component_start_def get_component_status_def
          update_component_status_def update_operational_status_def new_status_def
          json_status_def file_defs world_defs eval_nat_numeral l assms(2))
qed

theorem first_successful_start_witness:
  "status_slot ready_world ''HMS-API'' = Some 0 \<and> status_files ready_world 0 = None \<and>
   (\<exists>status' w'.
      record_component_start ready_world ''HMS-API'' True None = (Inr status', w') \<and>
      get_component_status w' ''HMS-API'' = (Inr (Status status'), w') \<and>
      successes (start status') = 1 \<and>
      attempts (start status') = 1 \<and>
      start_status (start status') = ''running'' \<and>
      last_attempt (start status') = Some ''2025-11-03T10:00:02'' \<and>
      start_last_success (start status') = Some ''2025-11-03T10:00:03'')"
proof -
  have h1: "status_slot ready_world ''HMS-API'' = Some 0"
    unfolding status_slot_def sample_paths by (simp add: sample_defs sample_lookup_def)
  have h2: "status_files ready_world 0 = None"
    by (simp add: sample_defs)
  have t2: "clock ready_world (clock_reads ready_world + 2) = ''2025-11-03T10:00:02''"
    and t3: "clock ready_world (clock_reads ready_world + 3) = ''2025-11-03T10:00:03''"
    by (simp_all add: sample_defs sample_clock_def)
  from first_successful_start [OF h1 h2, of None] h1 h2 show ?thesis
    unfolding t2 t3 by blast
qed

lemma get_status_file_path_cong:
  "script_dir w0 = script_dir w \<Longrightarrow> get_status_file_path w0 c = get_status_file_path w c"
  by (simp add: get_status_file_path_def STATUS_DIR_def)

lemma can_record_load:
  assumes "can_record w c"
  obtains w0 where "get_component_status w c = (Inr (Status (status_before w c)), w0)"
    and "script_dir w0 = script_dir w" and "os_lookup w0 = os_lookup w"
    and "status_files w0 = status_files w" and "logs_dir w0 = logs_dir w"
    and "work_tickets_dir w0 = work_tickets_dir w" and "clock w0 = clock w"
    and "uuid_source w0 = uuid_source w" and "uuid_draws w0 = uuid_draws w"
proof -
  from assms obtain i where l: "os_lookup w (get_status_file_path w c) = Regular i"
    by (auto simp: can_record_def status_slot_def split: lookup_result.splits)
  from assms l have ok: "status_files w i \<noteq> Some Other_JSON" "status_files w i \<noteq> Some Undecodable"
    by (simp_all add: can_record_def status_slot_def status_file_of_def)
  show ?thesis
  proof (cases "status_files w i")
    case None
    with l have "get_component_status w c =
        (Inr (Status (status_before w c)), w\<lparr>clock_reads := Suc (Suc (clock_reads w))\<rparr>)"
      by (simp add: get_component_status_def file_defs now_def Let_def status_before_def
            status_file_of_def status_slot_def)
    then show ?thesis by (rule that) simp_all
  next
    case (Some f)
    show ?thesis
    proof (cases f)
      case (Valid_JSON st)
      with l Some have "get_component_status w c = (Inr (Status (status_before w c)), w)"
        by (simp add: get_component_status_def file_defs now_def Let_def status_before_def
              status_file_of_def status_slot_def)
      then show ?thesis by (rule that) simp_all
    next
      case Invalid_JSON
      with l Some have "get_component_status w c =
          (Inr (Status (status_before w c)), w\<lparr>clock_reads := Suc (Suc (clock_reads w))\<rparr>)"
        by (simp add: get_component_status_def file_defs now_def Let_def status_before_def
              status_file_of_def status_slot_def)
      then show ?thesis by (rule that) simp_all
    next
      case Other_JSON
      with ok Some show ?thesis by simp
    next
      case Undecodable
      with ok Some show ?thesis by simp
    qed
  qed
qed

lemma can_record_dirs:
  assumes "can_record w c"
  obtains i lf tf where "os_lookup w (get_status_file_path w c) = Regular i"
    and "logs_dir w = Some lf" and "work_tickets_dir w = Some tf"
  using assms
  by (auto simp: can_record_def status_slot_def split: lookup_result.splits)

lemma record_start_failure_step:
  assumes "can_record w c"
  shows "\<exists>status' w' iss.
     record_component_start w c False out = (Inr status', w') \<and>
     status_file_of w' c = Some (Valid_JSON (json_status status')) \<and>
     can_record w' c \<and>
     failures (start status') = failures (start (status_before w c)) + 1 \<and>
     successes (start status') = successes (start (status_before w c)) \<and>
     start_status (start status') = ''failed'' \<and>
     issues status' = issues (status_before w c) @ [iss] \<and>
     issue_type iss = ''start_failure'' \<and>
     issue_status iss = ''open'' \<and>
     issue_details iss = Output_details out \<and>
     (if failures (start status') > successes (start status')
      then length (notifications w') = length (notifications w) + 1 \<and>
           (\<exists>tkt. ticket_file_of w' (''WRK-'' @ take 8 (uuid_source w (Suc (uuid_draws w))))
                    = Some tkt \<and>
                  ticket_issue_id tkt = issue_id iss \<and>
                  ticket_issue_type tkt = ''start_failure'' \<and>
                  priority tkt = ''high'')
      else notifications w' = notifications w \<and> work_tickets_dir w' = work_tickets_dir w)"
proof -
  from assms obtain w0 where g: "get_component_status w c = (Inr (Status (status_before w c)), w0)"
    and fr: "script_dir w0 = script_dir w" "os_lookup w0 = os_lookup w"
      "status_files w0 = status_files w" "logs_dir w0 = logs_dir w"
      "work_tickets_dir w0 = work_tickets_dir w" "clock w0 = clock w"
      "uuid_source w0 = uuid_source w" "uuid_draws w0 = uuid_draws w"
    by (rule can_record_load)
  from assms obtain i lf tf where d: "os_lookup w (get_status_file_path w c) = Regular i"
    "logs_dir w = Some lf" "work_tickets_dir w = Some tf"
    by (rule can_record_dirs)
  note p = get_status_file_path_cong [OF fr(1)]
  show ?thesis
    using fr d
    by (simp add: record_component_start_def g world_defs update_component_status_def
          update_operational_status_def file_defs p can_record_def status_slot_def
          status_file_of_def notifications_def ticket_file_of_def
          generate_work_ticket_def notify_agent_about_ticket_def json_ticket_def json_status_def)
qed

lemma status_before_stored:
  "status_file_of w c = Some (Valid_JSON status) \<Longrightarrow> status_before w c = status"
  by (simp add: status_before_def)

lemma json_status_fields [simp]:
  "start (json_status status) = start status"
  "tests_status (tests (json_status status)) = tests_status (tests status)"
  "total_runs (tests (json_status status)) = total_runs (tests status)"
  "total_passed (tests (json_status status)) = total_passed (tests status)"
  "total_failed (tests (json_status status)) = total_failed (tests status)"
  "operational_status (json_status status) = operational_status status"
  by (simp_all add: json_status_def)

lemma ready_world_can_record: "can_record ready_world ''HMS-API''"
  unfolding can_record_def status_file_of_def status_slot_def sample_paths
  by (simp add: sample_defs sample_lookup_def)


lemma status_before_ready_world:
  "status_before ready_world ''HMS-API'' =
     new_status ''HMS-API'' ''2025-11-03T10:00:00'' ''2025-11-03T10:00:01''"
  unfolding status_before_def status_file_of_def status_slot_def sample_paths
  by (simp add: sample_defs sample_lookup_def sample_clock_def)


text \<open>
  C3. Where the status file, the log and the ticket directory can be written,
  \<open>record_component_start\<close> with \<open>success = False\<close> adds one to \<open>failures\<close>, leaves
  \<open>successes\<close>, sets the start status to failed, appends exactly one issue of type
  \<open>start_failure\<close> and status open, and persists the record. It calls the ticket
  generator (one more line in the notification log, a ticket file for the new issue)
  exactly when the new count of failures exceeds the count of successes, and otherwise
  leaves the log and the tickets alone. While failures exceed successes, the next
  failing call generates a ticket again.
\<close>

theorem failed_start_recorded:
  assumes "can_record w c"
  shows "\<exists>status' w' iss.
     record_component_start w c False out = (Inr status', w') \<and>
     (\<exists>p. status_file_of w' c = Some (Valid_JSON p) \<and> start p = start status' \<and>
          issues p = map json_issue (issues status')) \<and>
     failures (start status') = failures (start (status_before w c)) + 1 \<and>
     successes (start status') = successes (start (status_before w c)) \<and>
     start_status (start status') = ''failed'' \<and>
     issues status' = issues (status_before w c) @ [iss] \<and>
     issue_type iss = ''start_failure'' \<and>
     issue_status iss = ''open'' \<and>
     issue_details iss = Output_details out \<and>
     (if failures (start status') > successes (start status')
      then length (notifications w') = length (notifications w) + 1 \<and>
           (\<exists>tkt. ticket_file_of w' (''WRK-'' @ take 8 (uuid_source w (Suc (uuid_draws w))))
                    = Some tkt \<and>
                  ticket_issue_id tkt = issue_id iss \<and>
                  ticket_issue_type tkt = ''start_failure'' \<and>
                  priority tkt = ''high'')
      else notifications w' = notifications w \<and> work_tickets_dir w' = work_tickets_dir w) \<and>
     (failures (start status') > successes (start status') \<longrightarrow>
        (\<exists>status'' w''.
           record_component_start w' c False out' = (Inr status'', w'') \<and>
           failures (start status'') > successes (start status'') \<and>
           length (notifications w'') = length (notifications w') + 1))"
proof -
  from record_start_failure_step [OF assms, where out = out]
  obtain status' w' iss where
    r: "record_component_start w c False out = (Inr status', w')" and
    g: "status_file_of w' c = Some (Valid_JSON (json_status status'))" and
    d: "can_record w' c" and
    rest: "failures (start status') = failures (start (status_before w c)) + 1"
      "successes (start status') = successes (start (status_before w c))"
      "start_status (start status') = ''failed''"
      "issues status' = issues (status_before w c) @ [iss]"
      "issue_type iss = ''start_failure''"
      "issue_status iss = ''open''"
      "issue_details iss = Output_details out"
      "(if failures (start status') > successes (start status')
      then length (notifications w') = length (notifications w) + 1 \<and>
           (\<exists>tkt. ticket_file_of w' (''WRK-'' @ take 8 (uuid_source w (Suc (uuid_draws w))))
                    = Some tkt \<and>
                  ticket_issue_id tkt = issue_id iss \<and>
                  ticket_issue_type tkt = ''start_failure'' \<and>
                  priority tkt = ''high'')
      else notifications w' = notifications w \<and> work_tickets_dir w' = work_tickets_dir w)"
    by blast
  have b: "status_before w' c = json_status status'"
    using g by (rule status_before_stored)
  from record_start_failure_step [OF d, where out = out']
  obtain status'' w'' where
    r2: "record_component_start w' c False out' = (Inr status'', w'')" and
    f2: "failures (start status'') = failures (start status') + 1" and
    s2: "successes (start status'') = successes (start status')" and
    n2: "(if failures (start status'') > successes (start status'')
         then length (notifications w'') = length (notifications w') + 1
         else notifications w'' = notifications w')"
    unfolding b json_status_fields by (auto split: if_splits)
  have again: "failures (start status') > successes (start status') \<longrightarrow>
        (\<exists>status'' w''.
           record_component_start w' c False out' = (Inr status'', w'') \<and>
           failures (start status'') > successes (start status'') \<and>
           length (notifications w'') = length (notifications w') + 1)"
    using r2 f2 s2 n2 by (auto split: if_splits)
  have saved: "\<exists>p. status_file_of w' c = Some (Valid_JSON p) \<and> start p = start status' \<and>
      issues p = map json_issue (issues status')"
    using g by (intro exI [of _ "json_status status'"]) (simp add: json_status_def)
  from r saved rest again show ?thesis by blast
qed

theorem failed_start_recorded_witness:
  "can_record ready_world ''HMS-API'' \<and>
   (\<exists>status' w' iss.
     record_component_start ready_world ''HMS-API'' False (Some ''exit code 1'') = (Inr status', w') \<and>
     (\<exists>p. status_file_of w' ''HMS-API'' = Some (Valid_JSON p) \<and> start p = start status') \<and>
     failures (start status') = 1 \<and>
     successes (start status') = 0 \<and>
     start_status (start status') = ''failed'' \<and>
     issues status' = [iss] \<and>
     issue_type iss = ''start_failure'' \<and>
     issue_status iss = ''open'' \<and>
     length (notifications w') = 1)"
proof -
  have h: "can_record ready_world ''HMS-API''" by (rule ready_world_can_record)
  have n: "notifications ready_world = []"
    by (simp add: notifications_def sample_defs)
  from failed_start_recorded [OF h, where out = "Some ''exit code 1''" and out' = None]
  have "\<exists>status' w' iss.
     record_component_start ready_world ''HMS-API'' False (Some ''exit code 1'') = (Inr status', w') \<and>
     (\<exists>p. status_file_of w' ''HMS-API'' = Some (Valid_JSON p) \<and> start p = start status') \<and>
     failures (start status') = 1 \<and>
     successes (start status') = 0 \<and>
     start_status (start status') = ''failed'' \<and>
     issues status' = [iss] \<and>
     issue_type iss = ''start_failure'' \<and>
     issue_status iss = ''open'' \<and>
     length (notifications w') = 1"
    unfolding status_before_ready_world n by (auto simp: new_status_def split: if_splits)
  with h show ?thesis by (rule conjI)
qed

subsection \<open>Counters\<close>












subsection \<open>The operational status is recomputed before every save\<close>




subsection \<open>Ticket creation and the notification\<close>

text \<open>
  C5. The claim is that a failure to append the notification does not keep
  \<open>generate_work_ticket\<close> from returning the ticket id. With the tickets directory in
  place and the logs directory missing, the call ends in the exception instead.
\<close>

theorem notification_failure_loses_ticket_id:
  "work_tickets_dir no_logs_world \<noteq> None \<and> logs_dir no_logs_world = None \<and>
   fst (generate_work_ticket no_logs_world ''HMS-API'' ''start_failure'' sample_issue)
     = Inl FileNotFoundError"
  by (simp add: generate_work_ticket_def notify_agent_about_ticket_def world_defs sample_defs)

text \<open>
  C5, as amended: where the tickets directory exists and the priority can be computed,
  \<open>generate_work_ticket\<close> writes the ticket file before it notifies, so the ticket is
  persisted either way. If the append to the log fails the exception leaves
  \<open>generate_work_ticket\<close> and no ticket id is returned; if it succeeds the ticket id is
  returned and the log has one more line. If computing the priority raises, the call ends
  before any file is written.
\<close>

theorem generate_work_ticket_outcome:
  assumes "work_tickets_dir w \<noteq> None"
  shows "(\<forall>p. determine_priority c ty iss = Inr p \<longrightarrow>
            (\<exists>tkt. ticket_file_of (snd (generate_work_ticket w c ty iss))
                     (''WRK-'' @ take 8 (uuid_source w (uuid_draws w))) = Some tkt \<and>
                   ticket_id tkt = ''WRK-'' @ take 8 (uuid_source w (uuid_draws w)) \<and>
                   ticket_component tkt = c \<and>
                   ticket_issue_id tkt = issue_id iss \<and>
                   ticket_issue_type tkt = ty \<and>
                   priority tkt = p) \<and>
            (logs_dir w = None \<longrightarrow>
               fst (generate_work_ticket w c ty iss) = Inl FileNotFoundError) \<and>
            (logs_dir w \<noteq> None \<longrightarrow>
               fst (generate_work_ticket w c ty iss) =
                 Inr (''WRK-'' @ take 8 (uuid_source w (uuid_draws w))) \<and>
               length (notifications (snd (generate_work_ticket w c ty iss))) =
                 length (notifications w) + 1)) \<and>
         (\<forall>e. determine_priority c ty iss = Inl e \<longrightarrow>
            fst (generate_work_ticket w c ty iss) = Inl e \<and>
            work_tickets_dir (snd (generate_work_ticket w c ty iss)) = work_tickets_dir w \<and>
            logs_dir (snd (generate_work_ticket w c ty iss)) = logs_dir w)"
  using assms
  by (cases "logs_dir w"; cases "determine_priority c ty iss")
     (auto simp: generate_work_ticket_def notify_agent_about_ticket_def world_defs
        ticket_file_of_def notifications_def json_ticket_def)

theorem generate_work_ticket_outcome_witness:
  "work_tickets_dir no_logs_world \<noteq> None \<and> logs_dir no_logs_world = None \<and>
   determine_priority ''HMS-API'' ''start_failure'' sample_issue = Inr ''high'' \<and>
   fst (generate_work_ticket no_logs_world ''HMS-API'' ''start_failure'' sample_issue)
     = Inl FileNotFoundError \<and>
   (\<exists>tkt. ticket_file_of
            (snd (generate_work_ticket no_logs_world ''HMS-API'' ''start_failure'' sample_issue))
            ''WRK-0f8fad5b'' = Some tkt \<and>
          ticket_issue_id tkt = issue_id sample_issue) \<and>
   work_tickets_dir ready_world \<noteq> None \<and> logs_dir ready_world \<noteq> None \<and>
   fst (generate_work_ticket ready_world ''HMS-API'' ''start_failure'' sample_issue)
     = Inr ''WRK-0f8fad5b'' \<and>
   determine_priority ''HMS-API'' ''test_failure''
     (sample_issue\<lparr>issue_details := Results_details huge_payload\<rparr>) = Inl OverflowError \<and>
   fst (generate_work_ticket ready_world ''HMS-API'' ''test_failure''
     (sample_issue\<lparr>issue_details := Results_details huge_payload\<rparr>)) = Inl OverflowError"
proof -
  have h1: "work_tickets_dir no_logs_world \<noteq> None" and h2: "logs_dir no_logs_world = None"
    and h3: "work_tickets_dir ready_world \<noteq> None" and h4: "logs_dir ready_world \<noteq> None"
    by (simp_all add: sample_defs)
  have u1: "''WRK-'' @ take 8 (uuid_source no_logs_world (uuid_draws no_logs_world)) = ''WRK-0f8fad5b''"
    and u2: "''WRK-'' @ take 8 (uuid_source ready_world (uuid_draws ready_world)) = ''WRK-0f8fad5b''"
    by (simp_all add: sample_defs sample_uuids_def)
  have p1: "determine_priority ''HMS-API'' ''start_failure'' sample_issue = Inr ''high''"
    by simp
  have p2: "determine_priority ''HMS-API'' ''test_failure''
     (sample_issue\<lparr>issue_details := Results_details huge_payload\<rparr>) = Inl OverflowError"
    by (simp add: determine_priority_def true_divide_exceeds_half_def details_results_def
          dict_get_def huge_payload_def sample_issue_def)
  note a = generate_work_ticket_outcome [OF h1, where c = "''HMS-API''"
      and ty = "''start_failure''" and iss = sample_issue, unfolded u1]
  note b = generate_work_ticket_outcome [OF h3, where c = "''HMS-API''"
      and ty = "''start_failure''" and iss = sample_issue, unfolded u2]
  note c = generate_work_ticket_outcome [OF h3, where c = "''HMS-API''"
      and ty = "''test_failure''"
      and iss = "sample_issue\<lparr>issue_details := Results_details huge_payload\<rparr>"]
  from a b c p1 p2 h1 h2 h3 h4 show ?thesis by blast
qed

end
